theory Spec2Isabelle
  imports Main
begin

section \<open>Syntax trees and JavaScript values\<close>

text \<open>
  The analysers work on the expression trees of the host parser. Only the node kinds the
  sources inspect are modelled. An identifier carries a number standing for the identity
  of its node object (the scope index compares nodes with \<^verbatim>\<open>===\<close>).
\<close>

datatype ast =
    Identifier nat string
  | NumericLiteral int
  | StringLiteral string
  | BooleanLiteral bool
  | MemberExpression ast ast
  | CallExpression ast "ast list"
  | ArrowFunctionExpression "ast list" ast
  | BinaryExpression string ast ast
  | UnaryExpression string ast
  | ConditionalExpression ast ast ast
  | ObjectExpression "ast list"
  | ObjectProperty ast ast
  | SpreadProperty ast
  | AssignmentExpression string ast ast

text \<open>
  Values built by the sources: an object literal is an association list in insertion
  order, \<open>Node\<close> is a syntax tree passed through as a value, \<open>Skip\<close> and \<open>Match\<close>
  are instances of the matcher's two result classes (a \<open>Skip\<close> holds its message as the
  template text and the values interpolated into it), \<open>Thunk\<close> is a function of no
  argument, given by what a call of it does.
\<close>

datatype js_error = ReferenceError string | TypeError string | Error string

datatype jsval =
    Undefined
  | Bool bool
  | Num int
  | Str string
  | Arr "jsval list"
  | Obj "(string \<times> jsval) list"
  | Node ast
  | NaN
  | Skip string "jsval list"
  | Match jsval
  | Thunk "js_error + jsval"

type_synonym fields = "(string \<times> jsval) list"

text \<open>Reading a property: a missing key reads as \<open>undefined\<close>.\<close>

definition get_field :: "fields \<Rightarrow> string \<Rightarrow> jsval" where
  "get_field fs k = (case map_of fs k of None \<Rightarrow> Undefined | Some v \<Rightarrow> v)"

text \<open>
  Writing a key of an object literal: an existing key keeps its position and takes the
  new value, a new key goes last.
\<close>

fun set_field :: "string \<Rightarrow> jsval \<Rightarrow> fields \<Rightarrow> fields" where
  "set_field k v [] = [(k, v)]"
| "set_field k v ((k', v') # fs) =
     (if k = k' then (k, v) # fs else (k', v') # set_field k v fs)"

text \<open>The spread \<^verbatim>\<open>{...acc, ...props}\<close>: every key of \<open>props\<close> is written in turn.\<close>

definition spread :: "fields \<Rightarrow> fields \<Rightarrow> fields" where
  "spread acc props = foldl (\<lambda>a (k, v). set_field k v a) acc props"

definition has_key :: "fields \<Rightarrow> string \<Rightarrow> bool" where
  "has_key fs k = (k \<in> set (map fst fs))"

text \<open>Truthiness of a value in a condition.\<close>

fun truthy :: "jsval \<Rightarrow> bool" where
  "truthy Undefined = False"
| "truthy (Bool b) = b"
| "truthy (Num n) = (n \<noteq> 0)"
| "truthy (Str s) = (s \<noteq> [])"
| "truthy (Arr xs) = True"
| "truthy (Obj fs) = True"
| "truthy (Node n) = True"
| "truthy NaN = False"
| "truthy (Skip m vs) = True"
| "truthy (Match v) = True"
| "truthy (Thunk r) = True"

section \<open>Command builders (db-command)\<close>

text \<open>
  \<^verbatim>\<open>createCollection(args)\<close> destructures \<open>db\<close> and \<open>collection\<close> and returns
  \<^verbatim>\<open>{ type: "query", db, collection }\<close>.
\<close>

definition createCollection :: "fields \<Rightarrow> fields" where
  "createCollection args =
     [(''type'', Str ''query''),
      (''db'', get_field args ''db''),
      (''collection'', get_field args ''collection'')]"

text \<open>\<^verbatim>\<open>{ type: "query", method: name, ...props, source }\<close> and its two siblings.\<close>

definition createQuery :: "jsval \<Rightarrow> fields \<Rightarrow> jsval \<Rightarrow> fields" where
  "createQuery name props source =
     set_field ''source'' source
       (spread [(''type'', Str ''query''), (''method'', name)] props)"

definition createValue :: "jsval \<Rightarrow> fields \<Rightarrow> jsval \<Rightarrow> fields" where
  "createValue name props source =
     set_field ''source'' source
       (spread [(''type'', Str ''value''), (''property'', name)] props)"

definition createModification :: "jsval \<Rightarrow> fields \<Rightarrow> jsval \<Rightarrow> fields" where
  "createModification name props source =
     set_field ''source'' source
       (spread [(''type'', Str ''modification''), (''method'', name)] props)"

definition filter_command :: "jsval \<Rightarrow> jsval \<Rightarrow> fields" where
  "filter_command command predicate =
     createQuery (Str ''filter'') [(''predicate'', predicate)] command"

definition map_command :: "jsval \<Rightarrow> jsval \<Rightarrow> fields" where
  "map_command command fs = createQuery (Str ''map'') [(''fields'', fs)] command"

definition slice :: "jsval \<Rightarrow> fields \<Rightarrow> fields" where
  "slice command args =
     createQuery (Str ''slice'')
       [(''from'', get_field args ''from''), (''to'', get_field args ''to'')] command"

definition sort_command :: "jsval \<Rightarrow> jsval \<Rightarrow> fields" where
  "sort_command command fs = createQuery (Str ''sort'') [(''fields'', fs)] command"

definition length_command :: "jsval \<Rightarrow> fields" where
  "length_command command = createValue (Str ''length'') [] command"

definition insert_command :: "jsval \<Rightarrow> jsval \<Rightarrow> fields" where
  "insert_command command items =
     createModification (Str ''insert'') [(''items'', items)] command"

definition update_command :: "jsval \<Rightarrow> fields \<Rightarrow> fields" where
  "update_command command args =
     createModification (Str ''update'')
       [(''update'', get_field args ''update''), (''predicate'', get_field args ''predicate'')]
       command"

definition remove_command :: "jsval \<Rightarrow> jsval \<Rightarrow> fields" where
  "remove_command command predicate =
     createModification (Str ''remove'') [(''predicate'', predicate)] command"

section \<open>Plugin entry: configuration validation\<close>





text \<open>
  The four handlers of \<open>visitor\<close>. Each calls \<open>transformPath\<close> with the analyser and the
  transformer of its node kind and with \<open>this.config\<close>, the configuration \<open>pre\<close> stored. The
  analyser and transformer modules are not part of the sources and are parameters, indexed
  by the handler.
\<close>

datatype handler =
  OnImportDeclaration | OnAssignmentExpression | OnMemberExpression | OnCallExpression




section \<open>Sort normaliser (schemas/sort)\<close>

subsection \<open>The ternary idiom: \<open>getSortExpression1\<close>\<close>

text \<open>
  The function destructures its argument object into \<open>param1\<close>, \<open>param2\<close>, the captures
  of the two comparisons and the three literals. \<^verbatim>\<open>===\<close> on the captured names is
  equality of values.
\<close>

definition paramOrder :: "fields \<Rightarrow> jsval \<Rightarrow> jsval \<Rightarrow> jsval" where
  "paramOrder c p1 p2 =
     (if get_field c ''param1'' = p1 \<and> get_field c ''param2'' = p2 then Num 1
      else if get_field c ''param1'' = p2 \<and> get_field c ''param2'' = p1 then Num (- 1)
      else Skip ''The sort expression must reference parameters ${param1} and ${param2}.''
             [get_field c ''param1'', get_field c ''param2''])"

definition legitOperators :: "jsval list" where
  "legitOperators = [Str ''>'', Str ''>='', Str ''<'', Str ''<='', Str ''=='', Str ''==='']"

text \<open>\<^verbatim>\<open>xs.find(p)\<close>: the first element satisfying \<open>p\<close>, \<open>undefined\<close> when there is none.\<close>

definition js_find :: "(jsval \<Rightarrow> bool) \<Rightarrow> jsval list \<Rightarrow> jsval" where
  "js_find p xs = (case find p xs of None \<Rightarrow> Undefined | Some x \<Rightarrow> x)"

definition operatorVal :: "fields \<Rightarrow> jsval \<Rightarrow> jsval" where
  "operatorVal c o' =
     (if o' \<in> set [Str ''>'', Str ''>=''] then Num 1
      else if o' \<in> set [Str ''<'', Str ''<=''] then Num (- 1)
      else if o' \<in> set [Str ''=='', Str ''===''] then Num 0
      else Skip ''Unknown operator ${} was found in the sort expression.''
             [js_find (\<lambda>x. x \<notin> set legitOperators)
                [get_field c ''operator1'', get_field c ''operator2'']])"

text \<open>\<open>stdVal\<close> is declared in the function and called nowhere.\<close>

definition stdVal :: "jsval \<Rightarrow> jsval" where
  "stdVal val =
     (case val of
        Num n \<Rightarrow> (if n > 1 then Num 1 else if n < 0 then Num (- 1) else Num 0)
      | NaN \<Rightarrow> Num 0
      | _ \<Rightarrow> Skip ''The sort expression is invalid. Should return less than zero, zero and greater than zero according to JS specifications.'' [])"

text \<open>
  Reading a variable: the bindings in scope that hold data are listed with their values;
  a name no enclosing scope declares raises a \<open>ReferenceError\<close>.
\<close>

definition read_variable :: "fields \<Rightarrow> string \<Rightarrow> js_error + jsval" where
  "read_variable env x =
     (case map_of env x of None \<Rightarrow> Inl (ReferenceError x) | Some v \<Rightarrow> Inr v)"

text \<open>
  The callback of \<^verbatim>\<open>.map(([[lhs, rhs], operator]) => [paramOrder(lhs, rhs),
  operatorVal(operator), val])\<close>. Its parameter pattern binds \<open>lhs\<close>, \<open>rhs\<close> and
  \<open>operator\<close> and drops the third entry of the row. Around it the function's own
  parameter pattern binds the fifteen captures. Every other binding in scope is a function,
  a module or a constant of another name (\<open>paramOrder\<close>, \<open>legitOperators\<close>, \<open>operatorVal\<close>,
  \<open>stdVal\<close>, \<open>normalized\<close>, \<open>nonResult\<close>, the imports and the top-level declarations of the
  file); the parameter \<open>val\<close> of \<open>stdVal\<close> is local to \<open>stdVal\<close>.
\<close>

definition callback_env :: "fields \<Rightarrow> jsval \<Rightarrow> jsval \<Rightarrow> jsval \<Rightarrow> fields" where
  "callback_env c lhs rhs operator =
     [(''lhs'', lhs), (''rhs'', rhs), (''operator'', operator)] @
     map (\<lambda>k. (k, get_field c k))
       [''param1'', ''param2'', ''lhs1'', ''lhsProp1'', ''rhs1'', ''rhsProp1'', ''operator1'',
        ''val1'', ''lhs2'', ''lhsProp2'', ''rhs2'', ''rhsProp2'', ''operator2'', ''val2'',
        ''val3'']"

definition normalize_row :: "fields \<Rightarrow> (jsval \<times> jsval) \<times> jsval \<times> jsval \<Rightarrow> js_error + jsval list" where
  "normalize_row c row =
     (case row of ((lhs, rhs), operator, dropped) \<Rightarrow>
        (let p = paramOrder c lhs rhs; ov = operatorVal c operator
         in case read_variable (callback_env c lhs rhs operator) ''val'' of
              Inl e \<Rightarrow> Inl e
            | Inr v \<Rightarrow> Inr [p, ov, v]))"

text \<open>\<^verbatim>\<open>xs.map(f)\<close> where \<open>f\<close> may throw: the first exception ends the loop.\<close>

fun map_throwing :: "('a \<Rightarrow> js_error + 'b) \<Rightarrow> 'a list \<Rightarrow> js_error + 'b list" where
  "map_throwing f [] = Inr []"
| "map_throwing f (x # xs) =
     (case f x of
        Inl e \<Rightarrow> Inl e
      | Inr y \<Rightarrow> (case map_throwing f xs of Inl e \<Rightarrow> Inl e | Inr ys \<Rightarrow> Inr (y # ys)))"

text \<open>
  Arithmetic on the cells. The cells a run can deliver are numbers and \<open>Skip\<close> instances;
  an operand that is not a number gives \<open>NaN\<close>.
\<close>

fun js_times :: "jsval \<Rightarrow> jsval \<Rightarrow> jsval" where
  "js_times (Num a) (Num b) = Num (a * b)"
| "js_times x y = NaN"

fun js_plus :: "jsval \<Rightarrow> jsval \<Rightarrow> jsval" where
  "js_plus (Num a) (Num b) = Num (a + b)"
| "js_plus x y = NaN"

fun is_Skip :: "jsval \<Rightarrow> bool" where
  "is_Skip (Skip m vs) = True"
| "is_Skip v = False"

definition row_product :: "jsval list \<Rightarrow> jsval" where
  "row_product r =
     (case r of [p, ov, v] \<Rightarrow> js_times (js_times p ov) v | _ \<Rightarrow> NaN)"

definition getSortExpression1 :: "fields \<Rightarrow> js_error + jsval" where
  "getSortExpression1 c =
     (let lhsProp1 = get_field c ''lhsProp1''
      in if lhsProp1 = get_field c ''rhsProp1'' \<and> lhsProp1 = get_field c ''lhsProp2'' \<and>
            lhsProp1 = get_field c ''rhsProp2''
         then
           (case map_throwing (normalize_row c)
                   [((get_field c ''lhs1'', get_field c ''rhs1''),
                       get_field c ''operator1'', get_field c ''val1''),
                    ((get_field c ''lhs2'', get_field c ''rhs2''),
                       get_field c ''operator2'', get_field c ''val2'')] of
              Inl e \<Rightarrow> Inl e
            | Inr normalized \<Rightarrow>
                (case find is_Skip (concat normalized) of
                   Some nonResult \<Rightarrow> Inr nonResult
                 | None \<Rightarrow>
                     (let matrix = map row_product normalized @ [get_field c ''val3''];
                          total = foldl js_plus (Num 0) matrix
                      in if total = Num 2
                         then Inr (Obj [(''field'', lhsProp1), (''ascending'', Bool True)])
                         else if total = Num (- 2)
                         then Inr (Obj [(''field'', lhsProp1), (''ascending'', Bool False)])
                         else Inr (Skip ''Invalid sort expression.'' []))))
         else Inr (Skip ''All fields in the sort expression must be the same.'' []))"

text \<open>
  What the description of the ternary idiom computes from the same captures: per
  comparison the product of the parameter-order sign, the operator sign and the clamped
  sign of the comparison's own literal, summed with the trailing literal.
\<close>

definition described_row :: "fields \<Rightarrow> (jsval \<times> jsval) \<times> jsval \<times> jsval \<Rightarrow> jsval list" where
  "described_row c row =
     (case row of ((lhs, rhs), operator, val) \<Rightarrow>
        [paramOrder c lhs rhs, operatorVal c operator, stdVal val])"

definition described_sort1 :: "fields \<Rightarrow> jsval" where
  "described_sort1 c =
     (let lhsProp1 = get_field c ''lhsProp1'';
          normalized = map (described_row c)
            [((get_field c ''lhs1'', get_field c ''rhs1''),
                get_field c ''operator1'', get_field c ''val1''),
             ((get_field c ''lhs2'', get_field c ''rhs2''),
                get_field c ''operator2'', get_field c ''val2'')]
      in if lhsProp1 = get_field c ''rhsProp1'' \<and> lhsProp1 = get_field c ''lhsProp2'' \<and>
            lhsProp1 = get_field c ''rhsProp2''
         then
           (case find is_Skip (concat normalized) of
              Some nonResult \<Rightarrow> nonResult
            | None \<Rightarrow>
                (let total = foldl js_plus (Num 0)
                       (map row_product normalized @ [get_field c ''val3''])
                 in if total = Num 2
                    then Obj [(''field'', lhsProp1), (''ascending'', Bool True)]
                    else if total = Num (- 2)
                    then Obj [(''field'', lhsProp1), (''ascending'', Bool False)]
                    else Skip ''Invalid sort expression.'' []))
         else Skip ''All fields in the sort expression must be the same.'' [])"

subsection \<open>The subtraction idiom: \<open>getSortExpression2\<close>\<close>

text \<open>
  \<open>operator\<close> is captured by the unary pattern only; for a plain subtraction the key is
  missing and reads as \<open>undefined\<close>.
\<close>

definition getSortOrder :: "fields \<Rightarrow> bool \<Rightarrow> bool" where
  "getSortOrder c negated =
     ((\<not> negated \<and> get_field c ''param1'' = get_field c ''lhsObject'') \<or>
      (negated \<and> get_field c ''param1'' = get_field c ''rhsObject''))"

definition getSortExpression2 :: "fields \<Rightarrow> jsval" where
  "getSortExpression2 c =
     (if list_all (\<lambda>p. p \<in> set [get_field c ''lhsObject'', get_field c ''rhsObject''])
           [get_field c ''param1'', get_field c ''param2'']
      then
        (if get_field c ''lhsProp'' = get_field c ''rhsProp''
         then Obj [(''field'', get_field c ''lhsProp''),
                   (''ascending'', Bool (getSortOrder c (get_field c ''operator'' = Str ''-'')))]
         else Skip ''The sort expression must reference the same property on compared objects.'' [])
      else Skip ''The sort expression must reference parameters ${param1} and ${param2}.''
             [get_field c ''param1'', get_field c ''param2''])"

subsection \<open>The comparator pattern \<open>compareFn2\<close>\<close>

text \<open>
  The pattern is read as a function of the node it is matched against. The matcher
  library itself is not part of the sources; what a match of this pattern delivers is
  taken from the \<open>build\<close> stage written next to it, which reads
  \<^verbatim>\<open>result.value.params[0].name\<close>, \<^verbatim>\<open>result.value.params[1].name\<close> and spreads
  \<^verbatim>\<open>result.value.body\<close>: each of the two parameter patterns delivers the name it captured
  under \<open>name\<close>, and the body delivers the captures of the alternative that matched
  (\<open>lhsObject\<close>, \<open>lhsProp\<close>, \<open>rhsObject\<close>, \<open>rhsProp\<close>, and \<open>operator\<close> for the unary form).
  The parameter list is the two-element list the pattern writes. The text of a \<open>Skip\<close>
  the matcher creates is left empty.
\<close>

fun sortExpression2Ascending :: "ast \<Rightarrow> fields option" where
  "sortExpression2Ascending
     (BinaryExpression operator
        (MemberExpression (Identifier a lhsObject) (Identifier b lhsProp))
        (MemberExpression (Identifier c rhsObject) (Identifier d rhsProp))) =
     (if operator = ''-''
      then Some [(''lhsObject'', Str lhsObject), (''lhsProp'', Str lhsProp),
                 (''rhsObject'', Str rhsObject), (''rhsProp'', Str rhsProp)]
      else None)"
| "sortExpression2Ascending other = None"

fun sortExpression2Descending :: "ast \<Rightarrow> fields option" where
  "sortExpression2Descending (UnaryExpression operator argument) =
     (case sortExpression2Ascending argument of
        None \<Rightarrow> None
      | Some captures \<Rightarrow> Some ((''operator'', Str operator) # captures))"
| "sortExpression2Descending other = None"

text \<open>\<^verbatim>\<open>any([sortExpression2Ascending, sortExpression2Descending])\<close>: the first that matches.\<close>

definition sortExpression2 :: "ast \<Rightarrow> fields option" where
  "sortExpression2 body =
     (case sortExpression2Ascending body of
        Some captures \<Rightarrow> Some captures
      | None \<Rightarrow> sortExpression2Descending body)"

fun compareFn2 :: "ast \<Rightarrow> jsval" where
  "compareFn2 (ArrowFunctionExpression [Identifier i name1, Identifier j name2] body) =
     (case sortExpression2 body of
        None \<Rightarrow> Skip [] []
      | Some captures \<Rightarrow>
          getSortExpression2
            (spread [(''param1'', Str name1), (''param2'', Str name2)] captures))"
| "compareFn2 other = Skip [] []"

section \<open>Write recogniser (schemas/update)\<close>

text \<open>
  The names the file imports. A name that is neither imported nor declared in the file,
  nor a global of the host, raises a \<open>ReferenceError\<close> where it is evaluated.
\<close>

definition update_js_imports :: "string list" where
  "update_js_imports =
     [''source'', ''collection'', ''parse'', ''capture'', ''exists'', ''any'', ''array'',
      ''repeatingItem'', ''Match'', ''composite'', ''R'', ''update'']"

text \<open>\<^verbatim>\<open>new Skip(message)\<close> evaluated in a file with the given imports.\<close>

definition new_Skip :: "string list \<Rightarrow> string \<Rightarrow> js_error + jsval" where
  "new_Skip imports message =
     (if ''Skip'' \<in> set imports then Inr (Skip message []) else Inl (ReferenceError ''Skip''))"

text \<open>\<^verbatim>\<open>node.name\<close>: only an identifier has the property.\<close>

fun node_name :: "ast \<Rightarrow> jsval" where
  "node_name (Identifier i n) = Str n"
| "node_name other = Undefined"

text \<open>
  The pattern \<open>getArrowFunctionBody(identifier)\<close> builds, read as a function of the body
  it is parsed against. The matcher library is not part of the sources; its combinators
  are read as described: a shape matches field by field, \<open>array\<close> with a repeating item
  captures the remaining elements, \<open>exists\<close> applies its predicate, \<open>any\<close> takes the
  first alternative that matches. \<open>updatedObject\<close>: an object expression whose first
  property spreads the identifier, the remaining properties captured.
  \<open>identifierPropsOf(x)\<close> equal to \<open>identifier\<close>: \<open>x\<close> has the identifier's \<open>type\<close> and
  \<open>name\<close>. The alternation tries the standard form first, then the inverse one. The text
  of a \<open>Skip\<close> the matcher creates is the matcher's own and is left empty.
\<close>

fun updatedObject :: "jsval \<Rightarrow> ast \<Rightarrow> jsval list option" where
  "updatedObject name (ObjectExpression (SpreadProperty (Identifier i n) # items)) =
     (if Str n = name then Some (map Node items) else None)"
| "updatedObject name other = None"

fun equals_identifier :: "jsval \<Rightarrow> ast \<Rightarrow> bool" where
  "equals_identifier name (Identifier i n) = (Str n = name)"
| "equals_identifier name other = False"

definition update_match :: "ast \<Rightarrow> jsval list \<Rightarrow> jsval" where
  "update_match test items = Match (Obj [(''test'', Node test), (''properties'', Arr items)])"

fun getArrowFunctionBody :: "jsval \<Rightarrow> ast \<Rightarrow> jsval" where
  "getArrowFunctionBody name (ConditionalExpression test consequent alternate) =
     (case updatedObject name consequent of
        Some items \<Rightarrow>
          (if equals_identifier name alternate then update_match test items
           else Skip [] [])
      | None \<Rightarrow>
          (if equals_identifier name consequent
           then (case updatedObject name alternate of
                   Some items \<Rightarrow> update_match test items
                 | None \<Rightarrow> Skip [] [])
           else Skip [] []))"
| "getArrowFunctionBody name other = Skip [] []"

text \<open>
  The \<open>build\<close> stage of the assignment pattern, run on a structural match whose value holds
  \<open>left\<close>, \<open>object\<close> and the single argument's \<open>params\<close> and \<open>body\<close>. \<open>parse_body\<close> stands
  for \<^verbatim>\<open>parse(getArrowFunctionBody(identifier))(body)(context)\<close>. \<open>R.equals\<close> is structural
  equality. On a \<open>Match\<close> of the body the stage returns the arrow function
  \<^verbatim>\<open>() => { console.log(update); return new Skip(`yoyo!`); }\<close>; otherwise it returns the
  result of the parse as it is.
\<close>

definition build :: "(jsval \<Rightarrow> ast \<Rightarrow> jsval) \<Rightarrow> jsval \<Rightarrow> jsval \<Rightarrow> ast list \<Rightarrow> ast \<Rightarrow> js_error + jsval" where
  "build parse_body left object params body =
     (if left = object
      then
        (case params of
           [] \<Rightarrow> Inl (TypeError ''params[0] is undefined'')
         | p # ps \<Rightarrow>
             (let update = parse_body (node_name p) body
              in case update of
                   Match v \<Rightarrow> Inr (Thunk (new_Skip update_js_imports ''yoyo!''))
                 | other \<Rightarrow> Inr update))
      else new_Skip update_js_imports
             ''The result of the map() must be assigned to the same collection.'')"

section \<open>Read analysers\<close>

subsection \<open>Recognising the root of a chain\<close>

text \<open>
  The per-file state holds the root declarations found so far; the plugin starts a file
  with \<^verbatim>\<open>state = {}\<close>, where \<open>rootDeclarations\<close> is \<open>undefined\<close>. Of a declaration the
  analysers read \<open>scope.bindings\<close> (per name, the nodes that refer to the binding, given
  by their identities) and \<open>node.init.arguments\<close>.
\<close>

record root_declaration =
  bindings :: "(string \<times> nat list) list"
  init_arguments :: "ast list option"

record analysis_state =
  rootDeclarations :: "root_declaration list option"

text \<open>\<^verbatim>\<open>s.includes(t)\<close> on strings: \<open>t\<close> occurs in \<open>s\<close>.\<close>

fun occurs_in :: "string \<Rightarrow> string \<Rightarrow> bool" where
  "occurs_in t [] = (t = [])"
| "occurs_in t (x # xs) = (take (length t) (x # xs) = t \<or> occurs_in t xs)"

text \<open>
  \<^verbatim>\<open>v.includes(x)\<close>: membership for an array, occurrence for two strings; a value
  without an \<open>includes\<close> method raises a \<open>TypeError\<close>.
\<close>

fun js_includes :: "jsval \<Rightarrow> jsval \<Rightarrow> js_error + bool" where
  "js_includes (Arr xs) x = Inr (x \<in> set xs)"
| "js_includes (Str s) (Str t) = Inr (occurs_in t s)"
| "js_includes v x = Inl (TypeError ''includes is not a function'')"

definition refers_to :: "string \<Rightarrow> nat \<Rightarrow> root_declaration \<Rightarrow> bool" where
  "refers_to name node_id ref =
     (case map_of (bindings ref) name of
        None \<Rightarrow> False
      | Some referencePaths \<Rightarrow> node_id \<in> set referencePaths)"

fun isRoot :: "ast \<Rightarrow> analysis_state \<Rightarrow> fields \<Rightarrow> js_error + bool" where
  "isRoot (MemberExpression (Identifier i name) property) state config =
     (if truthy (get_field config ''identifiers'')
      then js_includes (get_field config ''identifiers'') (Str name)
      else (case rootDeclarations state of
              None \<Rightarrow> Inl (TypeError ''state.rootDeclarations is undefined'')
            | Some refs \<Rightarrow> Inr (list_ex (refers_to name i) refs)))"
| "isRoot other state config = Inr False"

text \<open>
  \<open>getRootArgs\<close> reads \<open>path.node.object.name\<close> and \<open>path.node.property.name\<close>. Without
  configured identifiers it first looks the declaration up and reads the value of its
  initialiser's first argument, which it then does not use.
\<close>

fun getRootArgs :: "ast \<Rightarrow> analysis_state \<Rightarrow> fields \<Rightarrow> js_error + fields" where
  "getRootArgs (MemberExpression object property) state config =
     (let result = [(''db'', node_name object), (''collection'', node_name property)]
      in if truthy (get_field config ''identifiers'') then Inr result
         else (case rootDeclarations state of
                 None \<Rightarrow> Inl (TypeError ''state.rootDeclarations is undefined'')
               | Some refs \<Rightarrow>
                   (case object of
                      Identifier i name \<Rightarrow>
                        (case find (refers_to name i) refs of
                           None \<Rightarrow> Inl (TypeError ''rootDeclaration is undefined'')
                         | Some rootDeclaration \<Rightarrow>
                             (case init_arguments rootDeclaration of
                                Some (a # as) \<Rightarrow> Inr result
                              | other \<Rightarrow> Inl (TypeError ''init.arguments[0] is undefined'')))
                    | other \<Rightarrow> Inl (TypeError ''rootDeclaration is undefined''))))"
| "getRootArgs other state config = Inl (TypeError ''path.node.object is undefined'')"

subsection \<open>Assertions on syntax trees\<close>

text \<open>
  The module \<open>ast-asserts\<close> is missing from the sources. The description requires of
  \<open>filter\<close> and \<open>map\<close> a one-parameter function, of \<open>sort\<close> a two-parameter function, and
  of the values inspected a property access on one of the given parameters; a violation
  is a fatal error. An absent node (\<open>None\<close>) violates each.
\<close>

text \<open>
  Modelled from the spec: \<open>assertUnaryArrowFunction\<close> of the missing \<open>ast-asserts\<close>, fatal
  unless the node is an arrow function of one parameter.
\<close>

fun assertUnaryArrowFunction :: "ast option \<Rightarrow> js_error + unit" where
  "assertUnaryArrowFunction (Some (ArrowFunctionExpression [p] body)) = Inr ()"
| "assertUnaryArrowFunction other = Inl (Error ''Expected an arrow function with one parameter.'')"

text \<open>
  Modelled from the spec: \<open>assertBinaryArrowFunction\<close> of the missing \<open>ast-asserts\<close>, fatal
  unless the node is an arrow function of two parameters.
\<close>

fun assertBinaryArrowFunction :: "ast option \<Rightarrow> js_error + unit" where
  "assertBinaryArrowFunction (Some (ArrowFunctionExpression [p, q] body)) = Inr ()"
| "assertBinaryArrowFunction other = Inl (Error ''Expected an arrow function with two parameters.'')"

text \<open>
  Modelled from the spec: \<open>assertMemberExpressionUsesParameter\<close> of the missing
  \<open>ast-asserts\<close>, fatal unless the node is a property access on an identifier that is one
  of the given parameter names.
\<close>

fun assertMemberExpressionUsesParameter :: "ast option \<Rightarrow> jsval list \<Rightarrow> js_error + unit" where
  "assertMemberExpressionUsesParameter (Some (MemberExpression (Identifier i name) property)) params =
     (if Str name \<in> set params then Inr ()
      else Inl (Error ''Expected a member expression on a parameter.''))"
| "assertMemberExpressionUsesParameter other params =
     Inl (Error ''Expected a member expression on a parameter.'')"

subsection \<open>Argument extractors\<close>

text \<open>
  An extractor of a call operation receives the paths of the call's arguments;
  \<open>path[0]\<close> of an empty list is \<open>undefined\<close>.
\<close>

definition first :: "'a list \<Rightarrow> 'a option" where
  "first xs = (case xs of [] \<Rightarrow> None | x # rest \<Rightarrow> Some x)"

text \<open>Reading a child of a node that may be absent; reading from no node is a \<open>TypeError\<close>.\<close>

fun function_body :: "ast option \<Rightarrow> js_error + ast option" where
  "function_body None = Inl (TypeError ''fnExpr is undefined'')"
| "function_body (Some (ArrowFunctionExpression params body)) = Inr (Some body)"
| "function_body (Some other) = Inr None"

fun function_params :: "ast option \<Rightarrow> ast list" where
  "function_params (Some (ArrowFunctionExpression params body)) = params"
| "function_params other = []"

definition getFilterArgs :: "ast list \<Rightarrow> js_error + jsval" where
  "getFilterArgs path =
     (let fnExpr = first path
      in case assertUnaryArrowFunction fnExpr of
           Inl e \<Rightarrow> Inl e
         | Inr u \<Rightarrow>
             (case function_body fnExpr of
                Inl e \<Rightarrow> Inl e
              | Inr None \<Rightarrow> Inr Undefined
              | Inr (Some body) \<Rightarrow> Inr (Node body)))"

text \<open>\<open>prop.get("value")\<close>: only an object property has a value.\<close>

fun property_value :: "ast \<Rightarrow> ast option" where
  "property_value (ObjectProperty key v) = Some v"
| "property_value other = None"

text \<open>\<^verbatim>\<open>[p.node.key.name, p.node.value.property.name]\<close>.\<close>

fun field_pair :: "ast \<Rightarrow> js_error + jsval" where
  "field_pair (ObjectProperty key (MemberExpression object property)) =
     Inr (Arr [node_name key, node_name property])"
| "field_pair (ObjectProperty key other) = Inl (TypeError ''value.property is undefined'')"
| "field_pair other = Inl (TypeError ''key is undefined'')"

definition getMapArgs :: "ast list \<Rightarrow> js_error + jsval" where
  "getMapArgs path =
     (let fnExpr = first path
      in case assertUnaryArrowFunction fnExpr of
           Inl e \<Rightarrow> Inl e
         | Inr u \<Rightarrow>
             (case function_body fnExpr of
                Inl e \<Rightarrow> Inl e
              | Inr (Some (ObjectExpression properties)) \<Rightarrow>
                  (case function_params fnExpr of
                     [] \<Rightarrow> Inl (TypeError ''params[0] is undefined'')
                   | param # rest \<Rightarrow>
                       (case map_throwing
                               (\<lambda>prop. assertMemberExpressionUsesParameter (property_value prop)
                                          [node_name param])
                               properties of
                          Inl e \<Rightarrow> Inl e
                        | Inr checked \<Rightarrow>
                            (case map_throwing field_pair properties of
                               Inl e \<Rightarrow> Inl e
                             | Inr pairs \<Rightarrow> Inr (Arr pairs))))
              | Inr other \<Rightarrow> Inl (Error ''The map expression should return an object.'')))"

text \<open>\<open>node.value\<close>: the value of a literal.\<close>

fun node_value :: "ast \<Rightarrow> jsval" where
  "node_value (NumericLiteral n) = Num n"
| "node_value (StringLiteral s) = Str s"
| "node_value (BooleanLiteral b) = Bool b"
| "node_value (ObjectProperty key v) = Node v"
| "node_value other = Undefined"

fun getSliceArgs :: "ast list \<Rightarrow> js_error + jsval" where
  "getSliceArgs (a # b # rest) = Inr (Obj [(''from'', node_value a), (''to'', node_value b)])"
| "getSliceArgs [a] = Inl (TypeError ''path[1] is undefined'')"
| "getSliceArgs [] = Inl (TypeError ''path[0] is undefined'')"

text \<open>The children \<open>getSortArgs\<close> reads of the comparator's body and of its two sides.\<close>

fun node_operator :: "ast option \<Rightarrow> js_error + jsval" where
  "node_operator None = Inl (TypeError ''body is undefined'')"
| "node_operator (Some (BinaryExpression operator l r)) = Inr (Str operator)"
| "node_operator (Some (UnaryExpression operator a)) = Inr (Str operator)"
| "node_operator (Some (AssignmentExpression operator l r)) = Inr (Str operator)"
| "node_operator (Some other) = Inr Undefined"

fun node_left :: "ast option \<Rightarrow> ast option" where
  "node_left (Some (BinaryExpression operator l r)) = Some l"
| "node_left (Some (AssignmentExpression operator l r)) = Some l"
| "node_left other = None"

fun node_right :: "ast option \<Rightarrow> ast option" where
  "node_right (Some (BinaryExpression operator l r)) = Some r"
| "node_right (Some (AssignmentExpression operator l r)) = Some r"
| "node_right other = None"

fun property_name :: "ast option \<Rightarrow> js_error + jsval" where
  "property_name (Some (MemberExpression object property)) = Inr (node_name property)"
| "property_name other = Inl (TypeError ''property is undefined'')"

fun object_name :: "ast option \<Rightarrow> js_error + jsval" where
  "object_name (Some (MemberExpression object property)) = Inr (node_name object)"
| "object_name other = Inl (TypeError ''object is undefined'')"

definition getSortArgs :: "ast list \<Rightarrow> js_error + jsval" where
  "getSortArgs path =
     (let fnExpr = first path
      in case assertBinaryArrowFunction fnExpr of
           Inl e \<Rightarrow> Inl e
         | Inr u \<Rightarrow>
       (case function_params fnExpr of
          p # q # rest \<Rightarrow>
            (let firstParam = node_name p; secondParam = node_name q
             in case function_body fnExpr of
                  Inl e \<Rightarrow> Inl e
                | Inr body \<Rightarrow>
              (let left = node_left body; right = node_right body
               in case node_operator body of
                    Inl e \<Rightarrow> Inl e
                  | Inr operator \<Rightarrow>
                if operator \<notin> set [Str ''>'', Str ''>='', Str ''<'', Str ''<='']
                then Inl (Error ''The sort function should use the greater than or less than operator.'')
                else
                  (case assertMemberExpressionUsesParameter left [firstParam, secondParam] of
                     Inl e \<Rightarrow> Inl e
                   | Inr u \<Rightarrow>
                  (case property_name left of
                     Inl e \<Rightarrow> Inl e
                   | Inr leftField \<Rightarrow>
                  (case property_name right of
                     Inl e \<Rightarrow> Inl e
                   | Inr rightField \<Rightarrow>
                  if leftField \<noteq> rightField
                  then Inl (Error ''The sort expression should use the same field.'')
                  else
                  (case object_name left of
                     Inl e \<Rightarrow> Inl e
                   | Inr leftObject \<Rightarrow>
                  (case object_name right of
                     Inl e \<Rightarrow> Inl e
                   | Inr rightObject \<Rightarrow>
                  if \<not> list_all (\<lambda>i. i \<in> set [leftObject, rightObject]) [firstParam, secondParam]
                  then Inl (Error ''The sort expression should reference both parameters in the arrow function.'')
                  else Inr (Arr [Obj [(''field'', leftField),
                                      (''ascending'',
                                         Bool ((operator = Str ''>'' \<and> firstParam = leftObject) \<or>
                                               (operator = Str ''<'' \<and> firstParam = rightObject)))]]))))))))
        | other \<Rightarrow> Inl (TypeError ''params[1] is undefined'')))"

subsection \<open>The registry of operation definitions\<close>

text \<open>
  An entry of \<open>nodeDefinitions\<close>: the root entry has a predicate, a builder of one
  argument and an extractor working on the node; an operation entry has a name, the kind
  of node it is written as, the operations it may follow, a builder of the source
  command and the extracted arguments, and (but for \<open>length\<close>) an extractor working on the
  call's arguments. A builder that destructures its argument raises a \<open>TypeError\<close> on
  \<open>undefined\<close>. The root entry names \<open>rootAnalyzer.isRoot\<close> and
  \<open>rootAnalyzer.getRootArgs\<close> of the module \<open>analyze-root\<close>, which is missing; the
  file's own \<open>isRoot\<close> and \<open>getRootArgs\<close> stand for them.
\<close>

datatype node_type = CallExpressionType | MemberExpressionType

datatype node_definition =
    RootDefinition string
      "ast \<Rightarrow> analysis_state \<Rightarrow> fields \<Rightarrow> js_error + bool"
      "jsval \<Rightarrow> js_error + fields"
      "ast \<Rightarrow> analysis_state \<Rightarrow> fields \<Rightarrow> js_error + fields"
  | OperationDefinition string string node_type "string list"
      "jsval \<Rightarrow> jsval \<Rightarrow> js_error + fields"
      "(ast list \<Rightarrow> js_error + jsval) option"

fun definition_id :: "node_definition \<Rightarrow> string" where
  "definition_id (RootDefinition ident predicate builder args) = ident"
| "definition_id (OperationDefinition ident name type follows builder args) = ident"

fun definition_follows :: "node_definition \<Rightarrow> string list" where
  "definition_follows (RootDefinition ident predicate builder args) = []"
| "definition_follows (OperationDefinition ident name type follows builder args) = follows"

fun destructuring :: "(fields \<Rightarrow> fields) \<Rightarrow> jsval \<Rightarrow> js_error + fields" where
  "destructuring f (Obj fs) = Inr (f fs)"
| "destructuring f Undefined = Inl (TypeError ''cannot destructure undefined'')"
| "destructuring f other = Inr (f [])"

definition nodeDefinitions :: "node_definition list" where
  "nodeDefinitions =
     [RootDefinition ''root'' isRoot (destructuring createCollection) getRootArgs,
      OperationDefinition ''filter'' ''filter'' CallExpressionType [''root'', ''sort'']
        (\<lambda>command predicate. Inr (filter_command command predicate)) (Some getFilterArgs),
      OperationDefinition ''map'' ''map'' CallExpressionType
        [''root'', ''filter'', ''sort'', ''slice'']
        (\<lambda>command fs. Inr (map_command command fs)) (Some getMapArgs),
      OperationDefinition ''slice'' ''slice'' CallExpressionType
        [''root'', ''filter'', ''sort'', ''map'']
        (\<lambda>command. destructuring (slice command)) (Some getSliceArgs),
      OperationDefinition ''sort'' ''sort'' CallExpressionType [''root'', ''filter'']
        (\<lambda>command fs. Inr (sort_command command fs)) (Some getSortArgs),
      OperationDefinition ''length'' ''length'' MemberExpressionType [''root'', ''filter'']
        (\<lambda>command unused. Inr (length_command command)) None]"

subsection \<open>The chain analyser\<close>

text \<open>
  The module \<open>analyze-chain\<close> with \<open>makeAnalyzer\<close> is missing from the sources. As
  described, the analyser, given a node and a whitelist of operation ids,
  (1) finds the first definition of the registry whose id is whitelisted and that matches
  the node (the root predicate, or the node's kind and the name it accesses or calls);
  (2) for an operation, analyses the node's inner object to resolve the predecessor and
  its node; (3) checks that the predecessor's id is in the definition's \<open>follows\<close>, and
  produces nothing when it is not or when there is no predecessor; (4) runs the
  definition's extractor on the call's arguments, whose errors are fatal; (5) calls the
  builder with the predecessor's node and the arguments. The result is the id of the
  operation with its node, or nothing. The inner object is analysed against every id of
  the registry, so that step (3) alone decides what may follow what.
\<close>

text \<open>
  Modelled from the spec: step (1) of the missing analyser for one definition, whether
  it matches the node.
\<close>

fun matches_definition ::
  "(ast \<Rightarrow> analysis_state \<Rightarrow> fields \<Rightarrow> js_error + bool) \<Rightarrow> node_definition \<Rightarrow> ast \<Rightarrow>
     analysis_state \<Rightarrow> fields \<Rightarrow> js_error + bool" where
  "matches_definition is_root (RootDefinition ident predicate builder args) node state config =
     is_root node state config"
| "matches_definition is_root (OperationDefinition ident name CallExpressionType follows builder args)
     (CallExpression (MemberExpression object property) arguments) state config =
     Inr (node_name property = Str name)"
| "matches_definition is_root (OperationDefinition ident name MemberExpressionType follows builder args)
     (MemberExpression object property) state config =
     Inr (node_name property = Str name)"
| "matches_definition is_root d node state config = Inr False"

text \<open>
  Modelled from the spec: step (1) of the missing analyser, the first whitelisted
  definition in registry order that matches the node.
\<close>

fun find_definition ::
  "(ast \<Rightarrow> analysis_state \<Rightarrow> fields \<Rightarrow> js_error + bool) \<Rightarrow> node_definition list \<Rightarrow>
     string list \<Rightarrow> ast \<Rightarrow> analysis_state \<Rightarrow> fields \<Rightarrow> js_error + node_definition option" where
  "find_definition is_root [] whitelist node state config = Inr None"
| "find_definition is_root (d # ds) whitelist node state config =
     (if definition_id d \<in> set whitelist
      then (case matches_definition is_root d node state config of
              Inl e \<Rightarrow> Inl e
            | Inr True \<Rightarrow> Inr (Some d)
            | Inr False \<Rightarrow> find_definition is_root ds whitelist node state config)
      else find_definition is_root ds whitelist node state config)"

text \<open>
  Modelled from the spec: steps (3) to (5) of the missing analyser for the definition
  found; the root definition has no predecessor and builds from its own arguments.
\<close>

fun build_node ::
  "node_definition \<Rightarrow> ast \<Rightarrow> ast list \<Rightarrow> js_error + (string \<times> fields) option \<Rightarrow>
     analysis_state \<Rightarrow> fields \<Rightarrow> js_error + (string \<times> fields) option" where
  "build_node (RootDefinition ident predicate builder args) node arguments predecessor state config =
     (case args node state config of
        Inl e \<Rightarrow> Inl e
      | Inr a \<Rightarrow>
          (case builder (Obj a) of Inl e \<Rightarrow> Inl e | Inr built \<Rightarrow> Inr (Some (ident, built))))"
| "build_node (OperationDefinition ident name type follows builder args) node arguments predecessor
     state config =
     (case predecessor of
        Inl e \<Rightarrow> Inl e
      | Inr None \<Rightarrow> Inr None
      | Inr (Some (predecessor_id, source)) \<Rightarrow>
          (if predecessor_id \<in> set follows
           then (case (case args of None \<Rightarrow> Inr Undefined | Some extract \<Rightarrow> extract arguments) of
                   Inl e \<Rightarrow> Inl e
                 | Inr a \<Rightarrow>
                     (case builder (Obj source) a of
                        Inl e \<Rightarrow> Inl e
                      | Inr built \<Rightarrow> Inr (Some (ident, built))))
           else Inr None))"

text \<open>
  Modelled from the spec: the missing analyser at one node, given the result for the
  node's inner object.
\<close>

definition analyse_with ::
  "(ast \<Rightarrow> analysis_state \<Rightarrow> fields \<Rightarrow> js_error + bool) \<Rightarrow> node_definition list \<Rightarrow>
     string list \<Rightarrow> ast \<Rightarrow> ast list \<Rightarrow> js_error + (string \<times> fields) option \<Rightarrow>
     analysis_state \<Rightarrow> fields \<Rightarrow> js_error + (string \<times> fields) option" where
  "analyse_with is_root definitions whitelist node arguments predecessor state config =
     (case find_definition is_root definitions whitelist node state config of
        Inl e \<Rightarrow> Inl e
      | Inr None \<Rightarrow> Inr None
      | Inr (Some d) \<Rightarrow> build_node d node arguments predecessor state config)"

text \<open>
  Modelled from the spec: the missing \<open>makeAnalyzer\<close>, step (2): the inner object of a
  call is the object of its callee, that of a member expression is its object; any other
  node has none. \<open>is_root\<close> is the predicate the root definition is matched with.
\<close>

fun makeAnalyzer ::
  "node_definition list \<Rightarrow> (ast \<Rightarrow> analysis_state \<Rightarrow> fields \<Rightarrow> js_error + bool) \<Rightarrow>
     ast \<Rightarrow> string list \<Rightarrow> analysis_state \<Rightarrow> fields \<Rightarrow> js_error + (string \<times> fields) option" where
  "makeAnalyzer definitions is_root (CallExpression (MemberExpression object property) arguments)
     whitelist state config =
     analyse_with is_root definitions whitelist
       (CallExpression (MemberExpression object property) arguments) arguments
       (makeAnalyzer definitions is_root object (map definition_id definitions) state config)
       state config"
| "makeAnalyzer definitions is_root (MemberExpression object property) whitelist state config =
     analyse_with is_root definitions whitelist (MemberExpression object property) []
       (makeAnalyzer definitions is_root object (map definition_id definitions) state config)
       state config"
| "makeAnalyzer definitions is_root node whitelist state config =
     analyse_with is_root definitions whitelist node [] (Inr None) state config"

text \<open>\<^verbatim>\<open>const analyzer = makeAnalyzer(nodeDefinitions, isRoot)\<close>.\<close>

definition analyzer ::
  "ast \<Rightarrow> string list \<Rightarrow> analysis_state \<Rightarrow> fields \<Rightarrow> js_error + (string \<times> fields) option" where
  "analyzer = makeAnalyzer nodeDefinitions isRoot"

text \<open>The two entry points of the read analysers, with their whitelists.\<close>

definition analyzeCallExpression ::
  "ast \<Rightarrow> analysis_state \<Rightarrow> fields \<Rightarrow> js_error + (string \<times> fields) option" where
  "analyzeCallExpression path state config =
     analyzer path [''filter'', ''map'', ''slice'', ''sort''] state config"


section \<open>Example inputs\<close>




text \<open>\<^verbatim>\<open>(a, b) => a.total > b.total ? 2 : b.total < a.total ? 2 : 0\<close>, as captured.\<close>

definition ternary_example :: fields where
  "ternary_example =
     [(''param1'', Str ''a''), (''param2'', Str ''b''),
      (''lhs1'', Str ''a''), (''lhsProp1'', Str ''total''),
      (''rhs1'', Str ''b''), (''rhsProp1'', Str ''total''),
      (''operator1'', Str ''>''), (''val1'', Num 2),
      (''lhs2'', Str ''b''), (''lhsProp2'', Str ''total''),
      (''rhs2'', Str ''a''), (''rhsProp2'', Str ''total''),
      (''operator2'', Str ''<''), (''val2'', Num 2),
      (''val3'', Num 0)]"

text \<open>The captures of \<^verbatim>\<open>(x, y) => x.a - y.a\<close> and of \<^verbatim>\<open>(x, y) => -(x.a - y.a)\<close>.\<close>

definition subtraction_example :: fields where
  "subtraction_example =
     [(''param1'', Str ''x''), (''param2'', Str ''y''),
      (''lhsObject'', Str ''x''), (''lhsProp'', Str ''a''),
      (''rhsObject'', Str ''y''), (''rhsProp'', Str ''a'')]"

definition negated_example :: fields where
  "negated_example =
     [(''param1'', Str ''x''), (''param2'', Str ''y''), (''operator'', Str ''-''),
      (''lhsObject'', Str ''x''), (''lhsProp'', Str ''a''),
      (''rhsObject'', Str ''y''), (''rhsProp'', Str ''a'')]"

text \<open>
  The comparator \<^verbatim>\<open>(p1, p2) => l.lp - r.rp\<close> and its negation \<^verbatim>\<open>(p1, p2) => -(l.lp - r.rp)\<close>
  (with \<open>Some\<close> unary operator); \<open>ids\<close> gives the identifiers their node identities.
\<close>

definition subtraction_comparator ::
  "(nat \<Rightarrow> nat) \<Rightarrow> string option \<Rightarrow> string \<Rightarrow> string \<Rightarrow> string \<Rightarrow> string \<Rightarrow> string \<Rightarrow> string \<Rightarrow> ast" where
  "subtraction_comparator ids unary p1 p2 l lp r rp =
     (let difference =
            BinaryExpression ''-''
              (MemberExpression (Identifier (ids 2) l) (Identifier (ids 3) lp))
              (MemberExpression (Identifier (ids 4) r) (Identifier (ids 5) rp))
      in ArrowFunctionExpression [Identifier (ids 0) p1, Identifier (ids 1) p2]
           (case unary of None \<Rightarrow> difference | Some operator \<Rightarrow> UnaryExpression operator difference))"

text \<open>The collection references \<open>root.todos\<close> and \<open>root.users\<close>.\<close>

definition todos_ref :: jsval where
  "todos_ref = Obj (createCollection [(''db'', Str ''root''), (''collection'', Str ''todos'')])"

definition users_ref :: jsval where
  "users_ref = Obj (createCollection [(''db'', Str ''root''), (''collection'', Str ''users'')])"

text \<open>The body of \<^verbatim>\<open>t => t.id === 10 ? { ...t, active: true } : t\<close>.\<close>

definition update_body :: ast where
  "update_body =
     ConditionalExpression
       (BinaryExpression ''==='' (MemberExpression (Identifier 1 ''t'') (Identifier 2 ''id''))
          (NumericLiteral 10))
       (ObjectExpression
          [SpreadProperty (Identifier 3 ''t''),
           ObjectProperty (Identifier 4 ''active'') (BooleanLiteral True)])
       (Identifier 5 ''t'')"

text \<open>
  The chain \<^verbatim>\<open>root.todos.filter(t => t.done).map(t => ({ title: t.title })).slice(0, 10)\<close>
  with its prefixes, a configuration naming \<open>root\<close> as identifier, and the state of a file
  in which no root declaration was recorded.
\<close>

definition root_todos :: ast where
  "root_todos = MemberExpression (Identifier 1 ''root'') (Identifier 2 ''todos'')"

definition filter_call :: ast where
  "filter_call =
     CallExpression (MemberExpression root_todos (Identifier 3 ''filter''))
       [ArrowFunctionExpression [Identifier 4 ''t'']
          (MemberExpression (Identifier 5 ''t'') (Identifier 6 ''done''))]"

definition map_call :: ast where
  "map_call =
     CallExpression (MemberExpression filter_call (Identifier 7 ''map''))
       [ArrowFunctionExpression [Identifier 8 ''t'']
          (ObjectExpression
             [ObjectProperty (Identifier 9 ''title'')
                (MemberExpression (Identifier 10 ''t'') (Identifier 11 ''title''))])]"

definition slice_call :: ast where
  "slice_call =
     CallExpression (MemberExpression map_call (Identifier 12 ''slice''))
       [NumericLiteral 0, NumericLiteral 10]"

text \<open>\<^verbatim>\<open>root.todos.map(t => ({ title: t.title })).filter(t => t.title)\<close>: a filter after a map.\<close>

definition filter_after_map :: ast where
  "filter_after_map =
     CallExpression
       (MemberExpression
          (CallExpression (MemberExpression root_todos (Identifier 7 ''map''))
             [ArrowFunctionExpression [Identifier 8 ''t'']
                (ObjectExpression
                   [ObjectProperty (Identifier 9 ''title'')
                      (MemberExpression (Identifier 10 ''t'') (Identifier 11 ''title''))])])
          (Identifier 3 ''filter''))
       [ArrowFunctionExpression [Identifier 4 ''t'']
          (MemberExpression (Identifier 5 ''t'') (Identifier 6 ''title''))]"

text \<open>The nodes expected for the three calls of the chain, each the source of the next.\<close>

definition filter_node :: fields where
  "filter_node =
     [(''type'', Str ''query''), (''method'', Str ''filter''),
      (''predicate'', Node (MemberExpression (Identifier 5 ''t'') (Identifier 6 ''done''))),
      (''source'', Obj [(''type'', Str ''query''), (''db'', Str ''root''),
                        (''collection'', Str ''todos'')])]"

definition map_node :: fields where
  "map_node =
     [(''type'', Str ''query''), (''method'', Str ''map''),
      (''fields'', Arr [Arr [Str ''title'', Str ''title'']]),
      (''source'', Obj filter_node)]"

definition slice_node :: fields where
  "slice_node =
     [(''type'', Str ''query''), (''method'', Str ''slice''),
      (''from'', Num 0), (''to'', Num 10),
      (''source'', Obj map_node)]"

definition root_config :: fields where
  "root_config = [(''identifiers'', Arr [Str ''root''])]"

definition empty_state :: analysis_state where
  "empty_state = \<lparr>rootDeclarations = None\<rparr>"

section \<open>Properties of the command builders\<close>

lemma map_of_set_field: "map_of (set_field k v fs) = (map_of fs)(k \<mapsto> v)"
  by (induction fs) auto

lemma keys_set_field: "set (map fst (set_field k v fs)) = insert k (set (map fst fs))"
  by (induction k v fs rule: set_field.induct) (simp_all add: insert_commute)

lemma get_field_set_field:
  "get_field (set_field k v fs) k' = (if k' = k then v else get_field fs k')"
  by (simp add: get_field_def map_of_set_field)

lemma keys_spread: "set (map fst (spread acc props)) = set (map fst acc) \<union> set (map fst props)"
  unfolding spread_def
proof (induction props arbitrary: acc)
  case Nil
  then show ?case by simp
next
  case (Cons p props)
  obtain k v where p: "p = (k, v)" by (cases p)
  show ?case using Cons [of "set_field k v acc"] keys_set_field [of k v acc]
    by (simp add: p)
qed

lemma has_key_createQuery:
  "has_key (createQuery name props cmd) ''source'' \<and> has_key (createQuery name props cmd) ''method''"
  unfolding has_key_def createQuery_def keys_set_field keys_spread by simp

text \<open>
  Claim C10. The node \<open>createCollection\<close> builds carries the type tag \<open>"query"\<close>, the tag
  the four query builders give their nodes as well, with exactly the keys \<open>type\<close>, \<open>db\<close>
  and \<open>collection\<close>: it has no \<open>source\<close> and no \<open>method\<close> key, which every node of
  \<open>createQuery\<close> has. So a root node differs from a query node by the missing \<open>source\<close>
  and \<open>method\<close>, not by its tag.
\<close>

theorem createCollection_type_tag:
  "get_field (createCollection args) ''type'' = Str ''query'' \<and>
   map fst (createCollection args) = [''type'', ''db'', ''collection''] \<and>
   get_field (createCollection args) ''db'' = get_field args ''db'' \<and>
   get_field (createCollection args) ''collection'' = get_field args ''collection'' \<and>
   \<not> has_key (createCollection args) ''source'' \<and>
   \<not> has_key (createCollection args) ''method'' \<and>
   get_field (filter_command cmd x) ''type'' = Str ''query'' \<and>
   get_field (map_command cmd x) ''type'' = Str ''query'' \<and>
   get_field (slice cmd a) ''type'' = Str ''query'' \<and>
   get_field (sort_command cmd x) ''type'' = Str ''query'' \<and>
   has_key (createQuery name props cmd) ''source'' \<and>
   has_key (createQuery name props cmd) ''method''"
proof -
  have c: "get_field (createCollection args) ''type'' = Str ''query'' \<and>
   map fst (createCollection args) = [''type'', ''db'', ''collection''] \<and>
   get_field (createCollection args) ''db'' = get_field args ''db'' \<and>
   get_field (createCollection args) ''collection'' = get_field args ''collection'' \<and>
   \<not> has_key (createCollection args) ''source'' \<and>
   \<not> has_key (createCollection args) ''method''"
    by (simp add: createCollection_def get_field_def has_key_def)
  have q: "get_field (filter_command cmd x) ''type'' = Str ''query'' \<and>
   get_field (map_command cmd x) ''type'' = Str ''query'' \<and>
   get_field (slice cmd a) ''type'' = Str ''query'' \<and>
   get_field (sort_command cmd x) ''type'' = Str ''query''"
    by (simp add: filter_command_def map_command_def slice_def sort_command_def
        createQuery_def spread_def get_field_def)
  from c q has_key_createQuery [of name props cmd] show ?thesis by blast
qed

section \<open>Properties of the configuration check\<close>



section \<open>Properties of the sort normaliser\<close>

lemma getSortExpression1_same_fields:
  assumes "get_field c ''lhsProp1'' = get_field c ''rhsProp1''"
    and "get_field c ''lhsProp1'' = get_field c ''lhsProp2''"
    and "get_field c ''lhsProp1'' = get_field c ''rhsProp2''"
  shows "getSortExpression1 c = Inl (ReferenceError ''val'')"
  using assms
  by (simp add: getSortExpression1_def normalize_row_def read_variable_def callback_env_def)

text \<open>
  Claim C1. For the ternary comparator
  \<^verbatim>\<open>(a, b) => a.total > b.total ? 2 : b.total < a.total ? 2 : 0\<close> the described
  computation (signs of parameter order, operator and clamped literal multiplied per
  branch, summed with the trailing literal) totals \<open>+2\<close> and gives an ascending
  descriptor on \<open>total\<close>. \<open>getSortExpression1\<close> does not get that far: its row callback
  reads \<open>val\<close>, which no scope declares, and the call ends in a \<open>ReferenceError\<close>, as it
  does for every input whose four property names agree (lemma
  \<open>getSortExpression1_same_fields\<close>).
\<close>

theorem getSortExpression1_ternary_example:
  "getSortExpression1 ternary_example = Inl (ReferenceError ''val'') \<and>
   described_sort1 ternary_example = Obj [(''field'', Str ''total''), (''ascending'', Bool True)]"
  by (simp add: getSortExpression1_def normalize_row_def read_variable_def callback_env_def
      ternary_example_def get_field_def described_sort1_def described_row_def paramOrder_def
      operatorVal_def stdVal_def row_product_def)

text \<open>
  Claim C3. \<open>getSortExpression2\<close> returns a \<open>Skip\<close> unless both formals are among the
  two member-expression objects and both sides name the same property. When they do, it
  returns the descriptor of that property, ascending iff the first formal is the left
  object (no unary minus captured) or the right object (unary minus captured). So
  \<^verbatim>\<open>(x, y) => x.a - y.a\<close> is ascending and \<^verbatim>\<open>(x, y) => -(x.a - y.a)\<close> descending.
\<close>

theorem getSortExpression2_characterised:
  "(\<not> (get_field c ''param1'' \<in> {get_field c ''lhsObject'', get_field c ''rhsObject''} \<and>
        get_field c ''param2'' \<in> {get_field c ''lhsObject'', get_field c ''rhsObject''} \<and>
        get_field c ''lhsProp'' = get_field c ''rhsProp'')
      \<longrightarrow> is_Skip (getSortExpression2 c)) \<and>
   (get_field c ''param1'' \<in> {get_field c ''lhsObject'', get_field c ''rhsObject''} \<and>
    get_field c ''param2'' \<in> {get_field c ''lhsObject'', get_field c ''rhsObject''} \<and>
    get_field c ''lhsProp'' = get_field c ''rhsProp''
      \<longrightarrow> getSortExpression2 c =
            Obj [(''field'', get_field c ''lhsProp''),
                 (''ascending'',
                   Bool (if get_field c ''operator'' = Str ''-''
                         then get_field c ''param1'' = get_field c ''rhsObject''
                         else get_field c ''param1'' = get_field c ''lhsObject''))]) \<and>
   getSortExpression2 subtraction_example = Obj [(''field'', Str ''a''), (''ascending'', Bool True)] \<and>
   getSortExpression2 negated_example = Obj [(''field'', Str ''a''), (''ascending'', Bool False)]"
proof -
  have ex: "getSortExpression2 subtraction_example = Obj [(''field'', Str ''a''), (''ascending'', Bool True)] \<and>
   getSortExpression2 negated_example = Obj [(''field'', Str ''a''), (''ascending'', Bool False)]"
    by (simp add: getSortExpression2_def getSortOrder_def subtraction_example_def
        negated_example_def get_field_def)
  have gen: "(\<not> (get_field c ''param1'' \<in> {get_field c ''lhsObject'', get_field c ''rhsObject''} \<and>
        get_field c ''param2'' \<in> {get_field c ''lhsObject'', get_field c ''rhsObject''} \<and>
        get_field c ''lhsProp'' = get_field c ''rhsProp'')
      \<longrightarrow> is_Skip (getSortExpression2 c)) \<and>
   (get_field c ''param1'' \<in> {get_field c ''lhsObject'', get_field c ''rhsObject''} \<and>
    get_field c ''param2'' \<in> {get_field c ''lhsObject'', get_field c ''rhsObject''} \<and>
    get_field c ''lhsProp'' = get_field c ''rhsProp''
      \<longrightarrow> getSortExpression2 c =
            Obj [(''field'', get_field c ''lhsProp''),
                 (''ascending'',
                   Bool (if get_field c ''operator'' = Str ''-''
                         then get_field c ''param1'' = get_field c ''rhsObject''
                         else get_field c ''param1'' = get_field c ''lhsObject''))])"
    by (auto simp: getSortExpression2_def getSortOrder_def)
  from ex gen show ?thesis by blast
qed

theorem getSortExpression2_characterised_witness:
  "is_Skip (getSortExpression2 [(''param1'', Str ''x''), (''param2'', Str ''y''),
      (''lhsObject'', Str ''x''), (''lhsProp'', Str ''a''),
      (''rhsObject'', Str ''z''), (''rhsProp'', Str ''a'')]) \<and>
   getSortExpression2 [(''param1'', Str ''x''), (''param2'', Str ''y''),
      (''lhsObject'', Str ''y''), (''lhsProp'', Str ''a''),
      (''rhsObject'', Str ''x''), (''rhsProp'', Str ''a'')] =
     Obj [(''field'', Str ''a''), (''ascending'', Bool False)]"
  using getSortExpression2_characterised [of "[(''param1'', Str ''x''), (''param2'', Str ''y''),
      (''lhsObject'', Str ''x''), (''lhsProp'', Str ''a''),
      (''rhsObject'', Str ''z''), (''rhsProp'', Str ''a'')]"]
    getSortExpression2_characterised [of "[(''param1'', Str ''x''), (''param2'', Str ''y''),
      (''lhsObject'', Str ''y''), (''lhsProp'', Str ''a''),
      (''rhsObject'', Str ''x''), (''rhsProp'', Str ''a'')]"]
  by (simp add: get_field_def)

section \<open>Properties of the write recogniser\<close>

lemma build_other_collection:
  "left \<noteq> object \<Longrightarrow> build parse_body left object params body = Inl (ReferenceError ''Skip'')"
  by (simp add: build_def new_Skip_def update_js_imports_def)

lemma build_returns_no_node:
  assumes "\<And>name body. is_Skip (parse_body name body) \<or> (\<exists>v. parse_body name body = Match v)"
  shows "build parse_body left object params body \<noteq> Inr (Obj node)"
proof (cases "left = object")
  case False
  then show ?thesis by (simp add: build_def new_Skip_def update_js_imports_def)
next
  case True
  show ?thesis
  proof (cases params)
    case Nil
    with True show ?thesis by (simp add: build_def)
  next
    case (Cons p ps)
    from assms [of "node_name p" body] show ?thesis
    proof
      assume "is_Skip (parse_body (node_name p) body)"
      with True Cons show ?thesis
        by (cases "parse_body (node_name p) body") (auto simp: build_def Let_def)
    next
      assume "\<exists>v. parse_body (node_name p) body = Match v"
      with True Cons show ?thesis by (auto simp: build_def Let_def)
    qed
  qed
qed

lemma build_same_collection_match:
  "parse_body (node_name p) body = Match v \<Longrightarrow>
   build parse_body src src (p # ps) body = Inr (Thunk (Inl (ReferenceError ''Skip'')))"
  by (simp add: build_def new_Skip_def update_js_imports_def)

text \<open>
  Claim C2. For \<^verbatim>\<open>root.todos = root.todos.map(t => t.id === 10 ? { ...t, active: true } : t)\<close>
  both sides name the same collection and the body matches the standard form, capturing
  the test and the extra field. The \<open>build\<close> stage then returns no modification node: it
  returns an arrow function, and calling that function raises a \<open>ReferenceError\<close> for the
  name \<open>Skip\<close>, which the file does not import. Lemma \<open>build_returns_no_node\<close> shows
  that the stage returns a node for no input at all, whatever the parse of the body gives.
\<close>

theorem build_update_example:
  "getArrowFunctionBody (Str ''t'') update_body =
     Match (Obj [(''test'', Node (BinaryExpression ''===''
                    (MemberExpression (Identifier 1 ''t'') (Identifier 2 ''id'')) (NumericLiteral 10))),
                 (''properties'', Arr [Node (ObjectProperty (Identifier 4 ''active'') (BooleanLiteral True))])]) \<and>
   build getArrowFunctionBody todos_ref todos_ref [Identifier 0 ''t''] update_body =
     Inr (Thunk (Inl (ReferenceError ''Skip'')))"
  by (simp add: build_def new_Skip_def update_js_imports_def update_body_def update_match_def)

text \<open>
  Claim C6. For an assignment whose left-hand collection (\<open>todos\<close>) differs from the
  collection the \<open>map\<close> is called on (\<open>users\<close>), the \<open>build\<close> stage evaluates
  \<^verbatim>\<open>new Skip(...)\<close> and, \<open>Skip\<close> not being imported, raises a \<open>ReferenceError\<close> instead of
  returning a \<open>Skip\<close>; lemma \<open>build_other_collection\<close> shows the same for every pair of
  different collections.
\<close>

theorem build_other_collection_example:
  "build getArrowFunctionBody todos_ref users_ref [Identifier 0 ''t''] update_body =
     Inl (ReferenceError ''Skip'')"
  by (simp add: build_def new_Skip_def update_js_imports_def todos_ref_def users_ref_def
      createCollection_def get_field_def)


section \<open>Properties of the comparator pattern\<close>

text \<open>
  Claim C7, as stated, fails: \<open>compareFn2\<close> captures both formals under the name \<open>name\<close>,
  and for \<^verbatim>\<open>(x, y) => x.a - y.a\<close>, where the two captured values \<open>x\<close> and \<open>y\<close> differ,
  the outcome is the ascending descriptor and no \<open>Skip\<close>.
\<close>

theorem capture_name_twice_counterexample:
  "compareFn2 (subtraction_comparator Suc None ''x'' ''y'' ''x'' ''a'' ''y'' ''a'') =
     Obj [(''field'', Str ''a''), (''ascending'', Bool True)] \<and>
   \<not> is_Skip (compareFn2
     (subtraction_comparator Suc None ''x'' ''y'' ''x'' ''a'' ''y'' ''a'')) \<and>
   ''x'' \<noteq> ''y''"
  by (simp add: subtraction_comparator_def sortExpression2_def spread_def Let_def
        getSortExpression2_def get_field_def getSortOrder_def)

text \<open>
  Claim C7, amended. The two occurrences of \<open>capture("name")\<close> bind the two formals
  separately. For a subtraction comparator, plain or under a unary operator, with two
  different formals: if one of the two member-expression objects is an identifier other
  than the formals, the outcome is a \<open>Skip\<close> (from the check of the \<open>build\<close> stage that
  both formals are referenced); if the objects are the two formals and both sides name
  the same property, the match succeeds with the descriptor of that property.
\<close>

theorem compareFn2_formals:
  assumes "p1 \<noteq> p2"
  shows "(l \<notin> {p1, p2} \<or> r \<notin> {p1, p2} \<longrightarrow>
            is_Skip (compareFn2 (subtraction_comparator ids unary p1 p2 l lp r rp))) \<and>
         ({l, r} = {p1, p2} \<and> lp = rp \<longrightarrow>
            compareFn2 (subtraction_comparator ids unary p1 p2 l lp r rp) =
              Obj [(''field'', Str lp),
                   (''ascending'', Bool (if unary = Some ''-'' then p1 = r else p1 = l))])"
proof (cases unary)
  case None
  with assms show ?thesis
    by (auto simp: subtraction_comparator_def sortExpression2_def spread_def Let_def
        getSortExpression2_def getSortOrder_def get_field_def doubleton_eq_iff)
next
  case (Some operator)
  with assms show ?thesis
    by (auto simp: subtraction_comparator_def sortExpression2_def spread_def Let_def
        getSortExpression2_def getSortOrder_def get_field_def doubleton_eq_iff)
qed

theorem compareFn2_formals_witness:
  "is_Skip (compareFn2
     (subtraction_comparator Suc None ''x'' ''y'' ''x'' ''a'' ''z'' ''a'')) \<and>
   compareFn2
     (subtraction_comparator Suc (Some ''-'') ''x'' ''y'' ''x'' ''a'' ''y'' ''a'') =
     Obj [(''field'', Str ''a''), (''ascending'', Bool False)]"
proof -
  have d: "''x'' \<noteq> ''y''" by simp
  have a: "is_Skip (compareFn2
     (subtraction_comparator Suc None ''x'' ''y'' ''x'' ''a'' ''z'' ''a''))"
    using compareFn2_formals [OF d, of "''x''" "''z''" "Suc" None "''a''" "''a''"]
    by simp
  have b: "compareFn2
     (subtraction_comparator Suc (Some ''-'') ''x'' ''y'' ''x'' ''a'' ''y'' ''a'') =
     Obj [(''field'', Str ''a''), (''ascending'', Bool False)]"
    using compareFn2_formals [OF d, of "''x''" "''y''" "Suc" "Some ''-''" "''a''" "''a''"]
    by simp
  from a b show ?thesis by blast
qed

section \<open>Properties of the read analysers\<close>










section \<open>Properties of the chain analyser\<close>

lemma find_definition_matches:
  "find_definition is_root ds whitelist node state config = Inr (Some d) \<Longrightarrow>
   d \<in> set ds \<and> matches_definition is_root d node state config = Inr True"
proof (induction ds)
  case Nil
  then show ?case by simp
next
  case (Cons a ds)
  then show ?case
    by (auto split: if_splits sum.splits bool.splits)
qed

lemma find_definition_none:
  "(\<And>d. d \<in> set ds \<Longrightarrow> matches_definition is_root d node state config = Inr False) \<Longrightarrow>
   find_definition is_root ds whitelist node state config = Inr None"
  by (induction ds) auto

lemma analyzer_call:
  "analyzer (CallExpression (MemberExpression object property) arguments) whitelist state config =
     analyse_with isRoot nodeDefinitions whitelist
       (CallExpression (MemberExpression object property) arguments) arguments
       (analyzer object (map definition_id nodeDefinitions) state config) state config"
  by (simp add: analyzer_def)

lemma analyzer_member:
  "analyzer (MemberExpression object property) whitelist state config =
     analyse_with isRoot nodeDefinitions whitelist (MemberExpression object property) []
       (analyzer object (map definition_id nodeDefinitions) state config) state config"
  by (simp add: analyzer_def)

lemma matches_identifier:
  "matches_definition isRoot d (Identifier i n) state config = Inr False"
proof (cases d)
  case (RootDefinition x1 x2 x3 x4)
  then show ?thesis by simp
next
  case (OperationDefinition x1 x2 ty x4 x5 x6)
  then show ?thesis by (cases ty) simp_all
qed

lemma analyzer_identifier: "analyzer (Identifier i n) whitelist state config = Inr None"
  by (simp add: analyzer_def analyse_with_def find_definition_none matches_identifier)

lemma isRoot_True_object:
  "isRoot (MemberExpression object property) state config = Inr True \<Longrightarrow>
   \<exists>i n. object = Identifier i n"
  by (cases object) simp_all

lemma follows_checked:
  assumes node: "node = CallExpression (MemberExpression object property) arguments \<or>
                 node = MemberExpression object property"
    and pred: "analyzer object (map definition_id nodeDefinitions) state config =
                 Inr (Some (predecessor_id, source))"
    and found: "find_definition isRoot nodeDefinitions whitelist node state config = Inr (Some d)"
    and notin: "predecessor_id \<notin> set (definition_follows d)"
  shows "analyzer node whitelist state config = Inr None"
proof -
  from found have m: "matches_definition isRoot d node state config = Inr True"
    by (simp add: find_definition_matches)
  show ?thesis
  proof (cases d)
    case (RootDefinition ident predicate builder args)
    with m have r: "isRoot node state config = Inr True" by simp
    from node show ?thesis
    proof
      assume "node = CallExpression (MemberExpression object property) arguments"
      with r show ?thesis by simp
    next
      assume n: "node = MemberExpression object property"
      with r obtain i n' where "object = Identifier i n'"
        using isRoot_True_object by blast
      with pred show ?thesis by (simp add: analyzer_identifier)
    qed
  next
    case (OperationDefinition ident name type follows builder args)
    with notin have nf: "predecessor_id \<notin> set follows" by simp
    from node show ?thesis
    proof
      assume "node = CallExpression (MemberExpression object property) arguments"
      then show ?thesis
        using found pred nf OperationDefinition
        by (simp add: analyzer_call analyse_with_def)
    next
      assume "node = MemberExpression object property"
      then show ?thesis
        using found pred nf OperationDefinition
        by (simp add: analyzer_member analyse_with_def)
    qed
  qed
qed

lemma follows_table:
  "map (\<lambda>d. (definition_id d, definition_follows d)) nodeDefinitions =
     [(''root'', []), (''filter'', [''root'', ''sort'']),
      (''map'', [''root'', ''filter'', ''sort'', ''slice'']),
      (''slice'', [''root'', ''filter'', ''sort'', ''map'']),
      (''sort'', [''root'', ''filter'']), (''length'', [''root'', ''filter''])]"
  by (simp add: nodeDefinitions_def)

text \<open>
  Claim C4. The registry lists the operations each operation may follow. Whenever the
  inner object of a call or member node resolves to an operation whose id is not in the
  \<open>follows\<close> list of the definition found for the node, the analyser produces nothing.
  The chain filter, map, slice on \<open>root.todos\<close> is analysed at each of its three calls,
  and each node has the node of the call before it as its source.
\<close>

theorem chain_follows_registry:
  "map (\<lambda>d. (definition_id d, definition_follows d)) nodeDefinitions =
     [(''root'', []), (''filter'', [''root'', ''sort'']),
      (''map'', [''root'', ''filter'', ''sort'', ''slice'']),
      (''slice'', [''root'', ''filter'', ''sort'', ''map'']),
      (''sort'', [''root'', ''filter'']), (''length'', [''root'', ''filter''])] \<and>
   ((node = CallExpression (MemberExpression object property) arguments \<or>
     node = MemberExpression object property) \<and>
    analyzer object (map definition_id nodeDefinitions) state config =
      Inr (Some (predecessor_id, source)) \<and>
    find_definition isRoot nodeDefinitions whitelist node state config = Inr (Some d) \<and>
    predecessor_id \<notin> set (definition_follows d)
      \<longrightarrow> analyzer node whitelist state config = Inr None) \<and>
   analyzeCallExpression filter_call empty_state root_config =
     Inr (Some (''filter'', filter_node)) \<and>
   analyzeCallExpression map_call empty_state root_config =
     Inr (Some (''map'', map_node)) \<and>
   analyzeCallExpression slice_call empty_state root_config =
     Inr (Some (''slice'', slice_node))"
proof -
  have chain: "analyzeCallExpression filter_call empty_state root_config =
     Inr (Some (''filter'', filter_node)) \<and>
   analyzeCallExpression map_call empty_state root_config =
     Inr (Some (''map'', map_node)) \<and>
   analyzeCallExpression slice_call empty_state root_config =
     Inr (Some (''slice'', slice_node))"
    by code_simp
  from follows_table follows_checked chain show ?thesis by blast
qed

theorem chain_follows_registry_witness:
  "analyzer filter_after_map [''filter'', ''map'', ''slice'', ''sort''] empty_state root_config =
     Inr None"
proof -
  let ?inner = "CallExpression (MemberExpression root_todos (Identifier 7 ''map''))
             [ArrowFunctionExpression [Identifier 8 ''t'']
                (ObjectExpression
                   [ObjectProperty (Identifier 9 ''title'')
                      (MemberExpression (Identifier 10 ''t'') (Identifier 11 ''title''))])]"
  let ?args = "[ArrowFunctionExpression [Identifier 4 ''t'']
          (MemberExpression (Identifier 5 ''t'') (Identifier 6 ''title''))]"
  let ?d = "OperationDefinition ''filter'' ''filter'' CallExpressionType [''root'', ''sort'']
        (\<lambda>command predicate. Inr (filter_command command predicate)) (Some getFilterArgs)"
  have shape: "filter_after_map = CallExpression (MemberExpression ?inner (Identifier 3 ''filter'')) ?args"
    by (simp add: filter_after_map_def)
  have pred: "analyzer ?inner (map definition_id nodeDefinitions) empty_state root_config =
      Inr (Some (''map'', map_command (Obj (createCollection [(''db'', Str ''root''), (''collection'', Str ''todos'')]))
         (Arr [Arr [Str ''title'', Str ''title'']])))"
    by code_simp
  have found: "find_definition isRoot nodeDefinitions [''filter'', ''map'', ''slice'', ''sort'']
      filter_after_map empty_state root_config = Inr (Some ?d)"
    by (simp add: shape nodeDefinitions_def)
  have notin: "''map'' \<notin> set (definition_follows ?d)" by simp
  show ?thesis
    using chain_follows_registry [of filter_after_map ?inner "Identifier 3 ''filter''" ?args
        empty_state root_config "''map''" _ "[''filter'', ''map'', ''slice'', ''sort'']" ?d]
      shape pred found notin
    by blast
qed




end
